theory Spec2Isabelle
  imports Complex_Main
begin

section \<open>MoModbus: a shallow embedding of momodbus.py\<close>

text \<open>
  The program is a command line tool around the pymodbus library. Its own code is control
  flow: which library call is made, with which arguments, in which order, and which
  exception leaves which function. The embedding keeps exactly that. Every function of
  momodbus.py becomes a function from a world to an outcome and a new world; the outcome
  is \<open>Inl e\<close> when the Python function is left by the exception \<open>e\<close> and \<open>Inr v\<close>
  when it returns \<open>v\<close>. The world survives an exception, so that what was done before
  the exception was raised stays visible.
\<close>

subsection \<open>Exceptions\<close>

text \<open>
  The exceptions that the modelled code raises or handles. \<open>UsageError\<close> is
  click.UsageError with its message. \<open>NoSuchSlaveException\<close> is a subclass of
  pymodbus' ModbusException; KeyboardInterrupt is not a subclass of Exception.
\<close>

datatype exn =
    UsageError string
  | ModbusException
  | NoSuchSlaveException
  | ValueError
  | IndexError
  | KeyError
  | KeyboardInterrupt

fun is_ModbusException :: "exn \<Rightarrow> bool" where
  "is_ModbusException ModbusException = True"
| "is_ModbusException NoSuchSlaveException = True"
| "is_ModbusException _ = False"

fun is_Exception :: "exn \<Rightarrow> bool" where
  "is_Exception KeyboardInterrupt = False"
| "is_Exception _ = True"

subsection \<open>Values, requests, responses, effects\<close>

text \<open>A cell of a register bank: Python stores booleans and integers in the same lists.\<close>

datatype cell = BoolV bool | IntV int

text \<open>
  A call of a method of the pymodbus client: address, then count or value(s), then the
  \<open>slave=\<close> keyword argument.
\<close>

datatype request =
    ReadCoils int int int
  | ReadDiscreteInputs int int int
  | ReadHoldingRegisters int int int
  | ReadInputRegisters int int int
  | WriteCoil int bool int
  | WriteCoils int "bool list" int
  | WriteRegister int int int
  | WriteRegisters int "int list" int

text \<open>What the code reads of a response object: \<open>isError()\<close>, \<open>.bits\<close>, \<open>.registers\<close>.\<close>

record response =
  isError :: bool
  bits :: "bool list"
  registers :: "int list"

text \<open>The client: a call either raises or returns a response.\<close>

type_synonym client = "request \<Rightarrow> exn + response"

datatype level = DEBUG | INFO | ERROR

text \<open>
  The observable effects, in the order in which they happen. A log or echo line is kept
  by the fixed head of its message; the formatted values are left out.
\<close>

datatype event =
    Log level string
  | Echo string
  | PromptCoil int
  | PromptRegister int
  | Call request
  | SetValues int int int "cell list"
  | GetValues int int int int
  | Sleep rat
  | ThreadStart int int int int rat
  | StartSerialServer string int
  | StartTcpServer string int

subsection \<open>The datastore of pymodbus\<close>

text \<open>
  ModbusSequentialDataBlock(address, values) and ModbusSlaveContext(di, co, hr, ir) of the
  library, as far as the program uses them. A slave context maps a function code to one of
  its four blocks and shifts the address by one (its \<open>zero_mode\<close> is off); a block
  writes by slice assignment and reads by slicing. The constructor of a block takes its
  default value from \<open>values[0]\<close>, so it raises IndexError on an empty list
  (\<open>new_block\<close> below).
\<close>

record datablock =
  blk_address :: int
  blk_values :: "cell list"

record slave_context =
  di :: datablock
  co :: datablock
  hr :: datablock
  ir :: datablock

text \<open>Python's clamping of a slice bound against a list of length \<open>n\<close>.\<close>

definition slice_bound :: "nat \<Rightarrow> int \<Rightarrow> nat" where
  "slice_bound n i = (if i < 0 then nat (max 0 (i + int n)) else min (nat i) n)"

definition slice_get :: "'a list \<Rightarrow> int \<Rightarrow> int \<Rightarrow> 'a list" where
  "slice_get xs i j =
     (let lo = slice_bound (length xs) i; hi = slice_bound (length xs) j
      in take (hi - lo) (drop lo xs))"

definition slice_set :: "'a list \<Rightarrow> int \<Rightarrow> int \<Rightarrow> 'a list \<Rightarrow> 'a list" where
  "slice_set xs i j vs =
     (let lo = slice_bound (length xs) i; hi = max lo (slice_bound (length xs) j)
      in take lo xs @ vs @ drop hi xs)"

definition block_getValues :: "datablock \<Rightarrow> int \<Rightarrow> int \<Rightarrow> cell list" where
  "block_getValues b address count =
     (let start = address - blk_address b
      in slice_get (blk_values b) start (start + count))"

definition block_setValues :: "datablock \<Rightarrow> int \<Rightarrow> cell list \<Rightarrow> datablock" where
  "block_setValues b address vals =
     (let start = address - blk_address b
      in b\<lparr>blk_values := slice_set (blk_values b) start (start + int (length vals)) vals\<rparr>)"

datatype bank = Bank_d | Bank_c | Bank_h | Bank_i

definition decode :: "int \<Rightarrow> bank option" where
  "decode fx =
     (if fx = 2 then Some Bank_d
      else if fx = 4 then Some Bank_i
      else if fx = 3 \<or> fx = 6 \<or> fx = 16 \<or> fx = 22 \<or> fx = 23 then Some Bank_h
      else if fx = 1 \<or> fx = 5 \<or> fx = 15 then Some Bank_c
      else None)"

fun bank_of :: "slave_context \<Rightarrow> bank \<Rightarrow> datablock" where
  "bank_of s Bank_d = di s"
| "bank_of s Bank_c = co s"
| "bank_of s Bank_h = hr s"
| "bank_of s Bank_i = ir s"

fun bank_upd :: "slave_context \<Rightarrow> bank \<Rightarrow> datablock \<Rightarrow> slave_context" where
  "bank_upd s Bank_d b = s\<lparr>di := b\<rparr>"
| "bank_upd s Bank_c b = s\<lparr>co := b\<rparr>"
| "bank_upd s Bank_h b = s\<lparr>hr := b\<rparr>"
| "bank_upd s Bank_i b = s\<lparr>ir := b\<rparr>"

definition slave_setValues :: "slave_context \<Rightarrow> int \<Rightarrow> int \<Rightarrow> cell list \<Rightarrow> exn + slave_context" where
  "slave_setValues s fx address vals =
     (case decode fx of
        None \<Rightarrow> Inl KeyError
      | Some k \<Rightarrow> Inr (bank_upd s k (block_setValues (bank_of s k) (address + 1) vals)))"

definition slave_getValues :: "slave_context \<Rightarrow> int \<Rightarrow> int \<Rightarrow> int \<Rightarrow> exn + cell list" where
  "slave_getValues s fx address count =
     (case decode fx of
        None \<Rightarrow> Inl KeyError
      | Some k \<Rightarrow> Inr (block_getValues (bank_of s k) (address + 1) count))"

subsection \<open>The world\<close>

text \<open>
  What lies outside the program is given once and for all: the draws of the random
  generator, and the operator's answers to the prompts (to \<open>type=str\<close> and to
  \<open>type=int\<close> prompts). The world counts how many of each were consumed, keeps the
  effects so far, and holds the ModbusServerContext (the dict of slaves,
  \<open>single=False\<close>) of a slave process.
\<close>

record env =
  rnd :: "nat \<Rightarrow> nat"
  answer_str :: "nat \<Rightarrow> string"
  answer_int :: "nat \<Rightarrow> int"

record world =
  draws :: nat
  asked :: nat
  trace :: "event list"
  slaves :: "int \<rightharpoonup> slave_context"

type_synonym 'a action = "world \<Rightarrow> (exn + 'a) \<times> world"

definition return :: "'a \<Rightarrow> 'a action" where
  "return v w = (Inr v, w)"

definition raise :: "exn \<Rightarrow> 'a action" where
  "raise e w = (Inl e, w)"

text \<open>Sequencing: an exception of the first action skips the rest.\<close>

definition and_then :: "'a action \<Rightarrow> ('a \<Rightarrow> 'b action) \<Rightarrow> 'b action" where
  "and_then m f w = (case m w of (Inl e, w') \<Rightarrow> (Inl e, w') | (Inr v, w') \<Rightarrow> f v w')"

text \<open>\<open>try: m except E as e: h e\<close>, where \<open>handles\<close> decides \<open>isinstance(e, E)\<close>.\<close>

definition try_except :: "'a action \<Rightarrow> (exn \<Rightarrow> bool) \<Rightarrow> (exn \<Rightarrow> 'a action) \<Rightarrow> 'a action" where
  "try_except m handles h w =
     (case m w of
        (Inl e, w') \<Rightarrow> (if handles e then h e w' else (Inl e, w'))
      | (Inr v, w') \<Rightarrow> (Inr v, w'))"

definition emit :: "event \<Rightarrow> unit action" where
  "emit ev w = (Inr (), w\<lparr>trace := trace w @ [ev]\<rparr>)"

text \<open>\<open>xs[0]\<close>\<close>

definition first :: "'a list \<Rightarrow> 'a action" where
  "first xs = (case xs of [] \<Rightarrow> raise IndexError | x # _ \<Rightarrow> return x)"

subsection \<open>random, click.prompt, time.sleep, the client\<close>

text \<open>\<open>random.choice([True, False])\<close>: the draw picks the index.\<close>

definition random_choice :: "env \<Rightarrow> bool action" where
  "random_choice E w = (Inr (even (rnd E (draws w))), w\<lparr>draws := Suc (draws w)\<rparr>)"

text \<open>\<open>random.randint(a, b)\<close>: a value of \<open>[a, b]\<close>, ValueError when the range is empty.\<close>

definition random_randint :: "env \<Rightarrow> int \<Rightarrow> int \<Rightarrow> int action" where
  "random_randint E a b w =
     (if b < a then (Inl ValueError, w)
      else (Inr (a + int (rnd E (draws w)) mod (b - a + 1)), w\<lparr>draws := Suc (draws w)\<rparr>))"

text \<open>\<open>[random.choice([True, False]) for _ in range(n)]\<close>\<close>

fun choices :: "env \<Rightarrow> nat \<Rightarrow> bool list action" where
  "choices E 0 = return []"
| "choices E (Suc n) =
     and_then (random_choice E) (\<lambda>b. and_then (choices E n) (\<lambda>bs. return (b # bs)))"

text \<open>\<open>[random.randint(a, b) for _ in range(n)]\<close>\<close>

fun randints :: "env \<Rightarrow> int \<Rightarrow> int \<Rightarrow> nat \<Rightarrow> int list action" where
  "randints E a b 0 = return []"
| "randints E a b (Suc n) =
     and_then (random_randint E a b) (\<lambda>v. and_then (randints E a b n) (\<lambda>vs. return (v # vs)))"

definition lower_char :: "char \<Rightarrow> char" where
  "lower_char c =
     (let n = (of_char c :: nat) in if 65 \<le> n \<and> n \<le> 90 then char_of (n + 32) else c)"

definition lower :: "string \<Rightarrow> string" where
  "lower s = map lower_char s"

text \<open>\<open>click.prompt(..., type=str)\<close> for the coil at \<open>address + i\<close>, and its reading.\<close>

definition prompt_coil :: "env \<Rightarrow> int \<Rightarrow> bool action" where
  "prompt_coil E a w =
     (let v = answer_str E (asked w)
      in (Inr (lower v = ''1'' \<or> lower v = ''true'' \<or> lower v = ''t''),
          w\<lparr>asked := Suc (asked w), trace := trace w @ [PromptCoil a]\<rparr>))"

definition prompt_register :: "env \<Rightarrow> int \<Rightarrow> int action" where
  "prompt_register E a w =
     (Inr (answer_int E (asked w)),
      w\<lparr>asked := Suc (asked w), trace := trace w @ [PromptRegister a]\<rparr>)"

text \<open>The two prompting loops over \<open>i in range(count)\<close>, from \<open>i\<close> on, \<open>n\<close> rounds.\<close>

fun prompt_coils :: "env \<Rightarrow> int \<Rightarrow> nat \<Rightarrow> nat \<Rightarrow> bool list action" where
  "prompt_coils E address i 0 = return []"
| "prompt_coils E address i (Suc n) =
     and_then (prompt_coil E (address + int i))
       (\<lambda>b. and_then (prompt_coils E address (Suc i) n) (\<lambda>bs. return (b # bs)))"

fun prompt_registers :: "env \<Rightarrow> int \<Rightarrow> nat \<Rightarrow> nat \<Rightarrow> int list action" where
  "prompt_registers E address i 0 = return []"
| "prompt_registers E address i (Suc n) =
     and_then (prompt_register E (address + int i))
       (\<lambda>v. and_then (prompt_registers E address (Suc i) n) (\<lambda>vs. return (v # vs)))"

text \<open>\<open>time.sleep(t)\<close> refuses a negative length.\<close>

definition sleep :: "rat \<Rightarrow> unit action" where
  "sleep t = (if t < 0 then raise ValueError else emit (Sleep t))"

text \<open>A method call on the client: the call is recorded, then it raises or answers.\<close>

definition call :: "client \<Rightarrow> request \<Rightarrow> response action" where
  "call client rq w = (client rq, w\<lparr>trace := trace w @ [Call rq]\<rparr>)"

subsection \<open>read_data\<close>

definition read_body :: "client \<Rightarrow> int \<Rightarrow> int \<Rightarrow> int \<Rightarrow> int \<Rightarrow> cell list option action" where
  "read_body client unit_id function_code address count =
     and_then
       (if function_code = 1 then
          and_then (emit (Log DEBUG ''Sending read_coils''))
            (\<lambda>_. call client (ReadCoils address count unit_id))
        else if function_code = 2 then
          and_then (emit (Log DEBUG ''Sending read_discrete_inputs''))
            (\<lambda>_. call client (ReadDiscreteInputs address count unit_id))
        else if function_code = 3 then
          and_then (emit (Log DEBUG ''Sending read_holding_registers''))
            (\<lambda>_. call client (ReadHoldingRegisters address count unit_id))
        else if function_code = 4 then
          and_then (emit (Log DEBUG ''Sending read_input_registers''))
            (\<lambda>_. call client (ReadInputRegisters address count unit_id))
        else raise (UsageError ''Invalid function code for read. Use 1, 2, 3, or 4''))
       (\<lambda>result.
          if isError result then
            and_then (emit (Log ERROR ''Error reading data''))
              (\<lambda>_. and_then (emit (Echo ''Error reading data'')) (\<lambda>_. return None))
          else
            (let values = (if function_code = 1 \<or> function_code = 2
                           then map BoolV (bits result) else map IntV (registers result))
             in and_then (emit (Log DEBUG ''Received response'')) (\<lambda>_. return (Some values))))"

definition read_data :: "client \<Rightarrow> int \<Rightarrow> int \<Rightarrow> int \<Rightarrow> int \<Rightarrow> cell list option action" where
  "read_data client unit_id function_code address count =
     try_except (read_body client unit_id function_code address count) is_ModbusException
       (\<lambda>e. and_then (emit (Log ERROR ''Modbus error''))
              (\<lambda>_. and_then (emit (Echo ''Modbus error'')) (\<lambda>_. return None)))"

subsection \<open>write_data\<close>

text \<open>The report after the exchange, lines 160 to 166.\<close>

definition write_report :: "int \<Rightarrow> response \<Rightarrow> unit action" where
  "write_report function_code result =
     (if isError result then
        and_then (emit (Log ERROR ''Error writing data'')) (\<lambda>_. emit (Echo ''Error writing data''))
      else if function_code \<noteq> 6 then
        and_then (emit (Log DEBUG ''Write successful'')) (\<lambda>_. emit (Echo ''Successfully wrote''))
      else return ())"

definition write_body :: "env \<Rightarrow> client \<Rightarrow> int \<Rightarrow> int \<Rightarrow> int \<Rightarrow> int \<Rightarrow> bool \<Rightarrow> unit action" where
  "write_body E client unit_id function_code address count random_values =
     and_then
       (if function_code = 5 \<or> function_code = 15 then
          and_then
            (if random_values then
               and_then (choices E (nat count))
                 (\<lambda>values. and_then (emit (Echo ''Generated random coil values''))
                    (\<lambda>_. return values))
             else prompt_coils E address 0 (nat count))
            (\<lambda>values.
               if function_code = 5 then
                 if count \<noteq> 1 then raise (UsageError ''Function code 5 requires count=1'')
                 else
                   and_then (first values)
                     (\<lambda>v. and_then (emit (Log DEBUG ''Sending write_coil''))
                        (\<lambda>_. call client (WriteCoil address v unit_id)))
               else
                 and_then (emit (Log DEBUG ''Sending write_coils''))
                   (\<lambda>_. call client (WriteCoils address values unit_id)))
        else if function_code = 6 \<or> function_code = 16 then
          and_then
            (if random_values then
               and_then (randints E 0 65535 (nat count))
                 (\<lambda>values. and_then (emit (Echo ''Generated random register values''))
                    (\<lambda>_. return values))
             else prompt_registers E address 0 (nat count))
            (\<lambda>values.
               if function_code = 6 then
                 if count \<noteq> 1 then raise (UsageError ''Function code 6 requires count=1'')
                 else
                   and_then (first values)
                     (\<lambda>v. and_then (emit (Log DEBUG ''Sending write_register''))
                        (\<lambda>_. and_then (emit (Echo ''Sending FC6 (Write Single Register)''))
                           (\<lambda>_. and_then (call client (WriteRegister address v unit_id))
                              (\<lambda>result.
                                 if \<not> isError result
                                 then and_then (emit (Echo ''FC6 Response'')) (\<lambda>_. return result)
                                 else return result))))
               else
                 and_then (emit (Log DEBUG ''Sending write_registers''))
                   (\<lambda>_. call client (WriteRegisters address values unit_id)))
        else raise (UsageError ''Invalid function code for write. Use 5, 6, 15, or 16''))
       (write_report function_code)"

definition write_data :: "env \<Rightarrow> client \<Rightarrow> int \<Rightarrow> int \<Rightarrow> int \<Rightarrow> int \<Rightarrow> bool \<Rightarrow> unit action" where
  "write_data E client unit_id function_code address count random_values =
     try_except (write_body E client unit_id function_code address count random_values)
       is_ModbusException
       (\<lambda>e. and_then (emit (Log ERROR ''Modbus error'')) (\<lambda>_. emit (Echo ''Modbus error'')))"

text \<open>The client calls recorded in a trace, and those among them that write.\<close>

fun calls_of :: "event list \<Rightarrow> request list" where
  "calls_of [] = []"
| "calls_of (Call rq # evs) = rq # calls_of evs"
| "calls_of (_ # evs) = calls_of evs"


definition read_request :: "int \<Rightarrow> int \<Rightarrow> int \<Rightarrow> int \<Rightarrow> request" where
  "read_request function_code address count unit_id =
     (if function_code = 1 then ReadCoils address count unit_id
      else if function_code = 2 then ReadDiscreteInputs address count unit_id
      else if function_code = 3 then ReadHoldingRegisters address count unit_id
      else ReadInputRegisters address count unit_id)"

subsection \<open>The server context\<close>

text \<open>\<open>context[unit_id]\<close>: the slave of that unit, NoSuchSlaveException when there is none.\<close>

definition get_slave :: "int \<Rightarrow> slave_context action" where
  "get_slave unit_id w =
     (case slaves w unit_id of
        None \<Rightarrow> (Inl NoSuchSlaveException, w)
      | Some s \<Rightarrow> (Inr s, w))"

text \<open>
  \<open>context[unit_id].setValues(fx, address, vals)\<close>: the slave object is mutated in
  place, so the dict of the context holds the written slave afterwards.
\<close>

definition context_setValues :: "int \<Rightarrow> int \<Rightarrow> int \<Rightarrow> cell list \<Rightarrow> unit action" where
  "context_setValues unit_id fx address vals =
     and_then (get_slave unit_id)
       (\<lambda>s w.
          case slave_setValues s fx address vals of
            Inl e \<Rightarrow> (Inl e, w\<lparr>trace := trace w @ [SetValues unit_id fx address vals]\<rparr>)
          | Inr s' \<Rightarrow>
              (Inr (), w\<lparr>trace := trace w @ [SetValues unit_id fx address vals],
                         slaves := (slaves w)(unit_id \<mapsto> s')\<rparr>))"

definition context_getValues :: "int \<Rightarrow> int \<Rightarrow> int \<Rightarrow> int \<Rightarrow> cell list action" where
  "context_getValues unit_id fx address count =
     and_then (get_slave unit_id)
       (\<lambda>s w. (slave_getValues s fx address count,
               w\<lparr>trace := trace w @ [GetValues unit_id fx address count]\<rparr>))"

subsection \<open>update_random_values\<close>

text \<open>The body of the \<open>try\<close>, lines 47 to 60: one tick.\<close>

definition update_tick :: "env \<Rightarrow> int \<Rightarrow> int \<Rightarrow> int \<Rightarrow> int \<Rightarrow> rat \<Rightarrow> unit action" where
  "update_tick E unit_id coils_count holding_registers_count max_register_value update_interval =
     and_then (choices E (nat coils_count)) (\<lambda>coils.
     and_then (context_setValues unit_id 1 1 (map BoolV coils)) (\<lambda>_.
     and_then (emit (Log DEBUG ''Updated coils with random values starting at 1'')) (\<lambda>_.
     and_then (randints E 0 max_register_value (nat holding_registers_count)) (\<lambda>registers.
     and_then (context_setValues unit_id 3 1 (map IntV registers)) (\<lambda>_.
     and_then (and_then (context_getValues unit_id 3 1 1) first) (\<lambda>first_register.
     and_then (first registers) (\<lambda>_.
     and_then (emit (Log DEBUG ''Verified first holding register at address 1'')) (\<lambda>_.
     and_then (emit (Log DEBUG ''Updated holding registers with random values starting at 1'')) (\<lambda>_.
     sleep update_interval)))))))))"

text \<open>One round of the \<open>while True\<close> loop: the tick under \<open>except Exception\<close>.\<close>

definition update_step :: "env \<Rightarrow> int \<Rightarrow> int \<Rightarrow> int \<Rightarrow> int \<Rightarrow> rat \<Rightarrow> unit action" where
  "update_step E unit_id coils_count holding_registers_count max_register_value update_interval =
     try_except
       (update_tick E unit_id coils_count holding_registers_count max_register_value update_interval)
       is_Exception
       (\<lambda>e. and_then (emit (Log ERROR ''Error updating random values''))
              (\<lambda>_. sleep update_interval))"

text \<open>
  The loop has no exit of its own, so it is run for a given number of rounds. The result
  is \<open>None\<close> when the loop is still running after these rounds, and \<open>Some e\<close> when the
  exception \<open>e\<close> left it, which ends the thread.
\<close>

fun update_random_values ::
  "nat \<Rightarrow> env \<Rightarrow> int \<Rightarrow> int \<Rightarrow> int \<Rightarrow> int \<Rightarrow> rat \<Rightarrow> world \<Rightarrow> exn option \<times> world" where
  "update_random_values 0 E unit_id coils_count holding_registers_count max_register_value
     update_interval w = (None, w)"
| "update_random_values (Suc n) E unit_id coils_count holding_registers_count max_register_value
     update_interval w =
     (case update_step E unit_id coils_count holding_registers_count max_register_value
             update_interval w of
        (Inl e, w') \<Rightarrow> (Some e, w')
      | (Inr _, w') \<Rightarrow>
          update_random_values n E unit_id coils_count holding_registers_count
            max_register_value update_interval w')"

subsection \<open>initialize_server_context\<close>

text \<open>
  \<open>ModbusSequentialDataBlock(address, vals)\<close>: no block is built from an empty list.
\<close>

definition new_block :: "int \<Rightarrow> cell list \<Rightarrow> datablock action" where
  "new_block address vals =
     (case vals of
        [] \<Rightarrow> raise IndexError
      | _ # _ \<Rightarrow> return \<lparr>blk_address = address, blk_values = vals\<rparr>)"

text \<open>
  Lines 68 to 71 build the four blocks one after the other, each from its list; the
  context exists only when all four were built.
\<close>

definition initialize_server_context ::
  "env \<Rightarrow> int \<Rightarrow> int \<Rightarrow> int \<Rightarrow> int \<Rightarrow> bool \<Rightarrow> int \<Rightarrow> unit action" where
  "initialize_server_context E coils discrete_inputs holding_registers input_registers
     random_init max_register_value =
     and_then (if random_init then choices E (nat coils)
               else return (replicate (nat coils) False)) (\<lambda>cs.
     and_then (new_block 1 (map BoolV cs)) (\<lambda>coils_block.
     and_then (if random_init then choices E (nat discrete_inputs)
               else return (replicate (nat discrete_inputs) False)) (\<lambda>ds.
     and_then (new_block 1 (map BoolV ds)) (\<lambda>di_block.
     and_then (if random_init then randints E 0 max_register_value (nat holding_registers)
               else return (replicate (nat holding_registers) 0)) (\<lambda>hs.
     and_then (new_block 1 (map IntV hs)) (\<lambda>hr_block.
     and_then (if random_init then randints E 0 max_register_value (nat input_registers)
               else return (replicate (nat input_registers) 0)) (\<lambda>is.
     and_then (new_block 1 (map IntV is)) (\<lambda>ir_block.
       (let store = \<lparr>di = di_block, co = coils_block, hr = hr_block, ir = ir_block\<rparr>
        in (\<lambda>w. and_then (emit (Log INFO ''Initialized server context''))
                   (\<lambda>_. return ()) (w\<lparr>slaves := [1 \<mapsto> store]\<rparr>)))))))))))"

subsection \<open>The slave command\<close>

text \<open>
  The start of the update thread and of the server are effects; what the thread then
  does is \<open>update_random_values\<close> on the context of the world.
\<close>

definition start_server :: "string \<Rightarrow> string option \<Rightarrow> int \<Rightarrow> string \<Rightarrow> int \<Rightarrow> unit action" where
  "start_server protocol port baudrate host tcp_port =
     (if protocol = ''rtu'' then
        (case port of
           None \<Rightarrow> raise (UsageError ''Port and baudrate are required for RTU'')
         | Some p \<Rightarrow>
             if p = [] \<or> baudrate = 0
             then raise (UsageError ''Port and baudrate are required for RTU'')
             else
               and_then (emit (Log INFO ''Starting RTU server'')) (\<lambda>_.
               and_then (emit (Echo ''Starting RTU server'')) (\<lambda>_.
               emit (StartSerialServer p baudrate))))
      else
        and_then (emit (Log INFO ''Starting TCP server'')) (\<lambda>_.
        and_then (emit (Echo ''Starting TCP server'')) (\<lambda>_.
        emit (StartTcpServer host tcp_port))))"

definition slave ::
  "env \<Rightarrow> string \<Rightarrow> string option \<Rightarrow> int \<Rightarrow> string \<Rightarrow> int \<Rightarrow> int \<Rightarrow> int \<Rightarrow> int \<Rightarrow> int \<Rightarrow> int \<Rightarrow>
     bool \<Rightarrow> int \<Rightarrow> bool \<Rightarrow> unit action" where
  "slave E protocol port baudrate host tcp_port unit_id coils discrete_inputs holding_registers
     input_registers random_init max_register_value random_update =
     (if max_register_value < 0 \<or> max_register_value > 65535
      then raise (UsageError ''max-register-value must be between 0 and 65535'')
      else
        and_then (initialize_server_context E coils discrete_inputs holding_registers
                    input_registers random_init max_register_value) (\<lambda>_.
        and_then (if random_update then
                    and_then (emit (ThreadStart unit_id coils holding_registers
                                      max_register_value 1)) (\<lambda>_.
                    emit (Log INFO ''Started random value update thread (1 Hz)''))
                  else return ()) (\<lambda>_.
        try_except
          (try_except (start_server protocol port baudrate host tcp_port)
             (\<lambda>e. e = KeyboardInterrupt)
             (\<lambda>e. and_then (emit (Log INFO ''Stopped Modbus server''))
                    (\<lambda>_. emit (Echo ''Stopped Modbus server''))))
          is_Exception
          (\<lambda>e. and_then (emit (Log ERROR ''Server error''))
                 (\<lambda>_. emit (Echo ''Server error''))))))"

subsection \<open>Reading a trace, and judging the values in it\<close>


fun is_SetValues :: "event \<Rightarrow> bool" where
  "is_SetValues (SetValues _ _ _ _) = True"
| "is_SetValues _ = False"

text \<open>A register value within \<open>[0, m]\<close>; a cell that is such a register value; a boolean cell.\<close>

definition in_range :: "int \<Rightarrow> int \<Rightarrow> bool" where
  "in_range m v = (0 \<le> v \<and> v \<le> m)"

fun register_cell :: "int \<Rightarrow> cell \<Rightarrow> bool" where
  "register_cell m (IntV v) = in_range m v"
| "register_cell m (BoolV _) = False"

fun bool_cell :: "cell \<Rightarrow> bool" where
  "bool_cell (BoolV _) = True"
| "bool_cell (IntV _) = False"

text \<open>
  The values of a datastore write: booleans to the coils (function code 1), registers
  within \<open>[0, m]\<close> to the holding registers (function code 3).
\<close>

fun event_values_ok :: "int \<Rightarrow> event \<Rightarrow> bool" where
  "event_values_ok m (SetValues _ fx _ vs) =
     (if fx = 1 then list_all bool_cell vs else list_all (register_cell m) vs)"
| "event_values_ok m _ = True"

text \<open>The register values of a write request of the master lie within \<open>[0, m]\<close>.\<close>

fun request_values_ok :: "int \<Rightarrow> request \<Rightarrow> bool" where
  "request_values_ok m (WriteRegister _ v _) = in_range m v"
| "request_values_ok m (WriteRegisters _ vs _) = list_all (in_range m) vs"
| "request_values_ok m _ = True"

text \<open>All cells of a slave: booleans in the bit banks, registers within \<open>[0, m]\<close>.\<close>

definition slave_values_ok :: "int \<Rightarrow> slave_context \<Rightarrow> bool" where
  "slave_values_ok m s =
     (list_all bool_cell (blk_values (co s)) \<and> list_all bool_cell (blk_values (di s)) \<and>
      list_all (register_cell m) (blk_values (hr s)) \<and>
      list_all (register_cell m) (blk_values (ir s)))"

subsection \<open>Concrete surroundings for the examples\<close>

definition w0 :: world where
  "w0 = \<lparr>draws = 0, asked = 0, trace = [], slaves = Map.empty\<rparr>"

definition E0 :: env where
  "E0 = \<lparr>rnd = (\<lambda>i. 3 * i + 1), answer_str = (\<lambda>i. if even i then ''True'' else ''0''),
          answer_int = (\<lambda>i. 100 + int i)\<rparr>"

text \<open>A generator whose every draw is 65535.\<close>

definition E_max :: env where
  "E_max = \<lparr>rnd = (\<lambda>_. 65535), answer_str = (\<lambda>_. ''1''), answer_int = (\<lambda>_. 0)\<rparr>"

text \<open>A client that answers every call with a success response.\<close>

definition client_ok :: client where
  "client_ok rq = Inr \<lparr>isError = False, bits = [], registers = []\<rparr>"

subsection \<open>Auxiliary notions for the update loop\<close>

text \<open>The two read-only banks of every unit of the context.\<close>

definition inputs :: "world \<Rightarrow> int \<Rightarrow> (datablock \<times> datablock) option" where
  "inputs w u = map_option (\<lambda>s. (di s, ir s)) (slaves w u)"




text \<open>
  The datastore writes recorded so far carry only values that are allowed under the bound
  \<open>m\<close>; the client calls recorded so far carry only register values of \<open>[0, 65535]\<close>.
\<close>

definition values_ok :: "int \<Rightarrow> world \<Rightarrow> bool" where
  "values_ok m w = list_all (event_values_ok m) (trace w)"

definition requests_ok :: "world \<Rightarrow> bool" where
  "requests_ok w = list_all (request_values_ok 65535) (calls_of (trace w))"

text \<open>A slave process right after its context was built: unit 1, two cells per bank.\<close>

definition w_slave :: world where
  "w_slave = snd (initialize_server_context E0 2 2 2 2 False 100 w0)"

section \<open>Properties\<close>

subsection \<open>The list comprehensions and the prompting loops\<close>

lemma upt_Suc_shift: "[0..<Suc n] = 0 # map Suc [0..<n]"
  using upt_conv_Cons [of 0 "Suc n"] by (simp add: map_Suc_upt del: upt_Suc)

lemma map_upt_Suc_shift: "map f [0..<Suc n] = f 0 # map (\<lambda>i. f (Suc i)) [0..<n]"
  by (simp only: upt_Suc_shift list.map map_map comp_def)

lemma choices_eq:
  "choices E n w =
     (Inr (map (\<lambda>i. even (rnd E (draws w + i))) [0..<n]), w\<lparr>draws := draws w + n\<rparr>)"
proof (induction n arbitrary: w)
  case 0
  show ?case by (simp add: return_def)
next
  case (Suc n)
  show ?case
    by (simp add: and_then_def random_choice_def return_def Suc.IH map_upt_Suc_shift
        del: upt_Suc)
qed

lemma randints_eq:
  "a \<le> b \<Longrightarrow> randints E a b n w =
     (Inr (map (\<lambda>i. a + int (rnd E (draws w + i)) mod (b - a + 1)) [0..<n]),
      w\<lparr>draws := draws w + n\<rparr>)"
proof (induction n arbitrary: w)
  case 0
  show ?case by (simp add: return_def)
next
  case (Suc n)
  then show ?case
    by (simp add: and_then_def random_randint_def return_def map_upt_Suc_shift del: upt_Suc)
qed

lemma prompt_coils_eq:
  "prompt_coils E address i n w =
     (Inr (map (\<lambda>k. lower (answer_str E (asked w + k)) = ''1''
                  \<or> lower (answer_str E (asked w + k)) = ''true''
                  \<or> lower (answer_str E (asked w + k)) = ''t'') [0..<n]),
      w\<lparr>asked := asked w + n,
        trace := trace w @ map (\<lambda>k. PromptCoil (address + int (i + k))) [0..<n]\<rparr>)"
proof (induction n arbitrary: w i)
  case 0
  show ?case by (simp add: return_def)
next
  case (Suc n)
  show ?case
    by (simp add: and_then_def prompt_coil_def return_def Suc.IH map_upt_Suc_shift Let_def
        del: upt_Suc)
qed

lemma prompt_registers_eq:
  "prompt_registers E address i n w =
     (Inr (map (\<lambda>k. answer_int E (asked w + k)) [0..<n]),
      w\<lparr>asked := asked w + n,
        trace := trace w @ map (\<lambda>k. PromptRegister (address + int (i + k))) [0..<n]\<rparr>)"
proof (induction n arbitrary: w i)
  case 0
  show ?case by (simp add: return_def)
next
  case (Suc n)
  show ?case
    by (simp add: and_then_def prompt_register_def return_def Suc.IH map_upt_Suc_shift Let_def
        del: upt_Suc)
qed

lemma calls_of_append: "calls_of (xs @ ys) = calls_of xs @ calls_of ys"
  by (induction xs rule: calls_of.induct) simp_all

lemma calls_of_prompt_coils: "calls_of (map (\<lambda>k. PromptCoil (f k)) ks) = []"
  by (induction ks) simp_all

lemma calls_of_prompt_registers: "calls_of (map (\<lambda>k. PromptRegister (f k)) ks) = []"
  by (induction ks) simp_all

subsection \<open>Dispatch on the function code\<close>

text \<open>
  Claim C7. A function code other than 1, 2, 3, 4 makes \<open>read_data\<close> fail with the usage
  error of the read path, and a function code other than 5, 6, 15, 16 makes
  \<open>write_data\<close> fail with the usage error of the write path. In both cases the world is
  the one the call started from: nothing was sent to the client, nothing was drawn, asked
  or logged.
\<close>

theorem dispatch_unsupported:
  "(function_code \<noteq> 1 \<and> function_code \<noteq> 2 \<and> function_code \<noteq> 3 \<and> function_code \<noteq> 4 \<longrightarrow>
      read_data client unit_id function_code address count w =
        (Inl (UsageError ''Invalid function code for read. Use 1, 2, 3, or 4''), w)) \<and>
   (function_code \<noteq> 5 \<and> function_code \<noteq> 6 \<and> function_code \<noteq> 15 \<and> function_code \<noteq> 16 \<longrightarrow>
      write_data E client unit_id function_code address count random_values w =
        (Inl (UsageError ''Invalid function code for write. Use 5, 6, 15, or 16''), w))"
  by (simp add: read_data_def read_body_def write_data_def write_body_def try_except_def
      and_then_def raise_def)

theorem dispatch_unsupported_witness:
  "read_data client_ok 1 5 10 2 w0 =
     (Inl (UsageError ''Invalid function code for read. Use 1, 2, 3, or 4''), w0) \<and>
   write_data E0 client_ok 1 3 10 2 True w0 =
     (Inl (UsageError ''Invalid function code for write. Use 5, 6, 15, or 16''), w0)"
  using dispatch_unsupported [of 5 client_ok 1 10 2 w0]
    dispatch_unsupported [of 3 client_ok 1 10 2 w0 E0 True]
  by simp

subsection \<open>What read_data returns\<close>

text \<open>
  Claim C8. With a function code of 1 to 4, \<open>read_data\<close> returns \<open>None\<close> when the
  client raises a ModbusException and when the response is an error response, and it
  returns the bits (function codes 1, 2) or the registers (3, 4) of the response
  otherwise. Only an exception that is not a ModbusException leaves the function.
\<close>

theorem read_data_outcome:
  assumes "function_code = 1 \<or> function_code = 2 \<or> function_code = 3 \<or> function_code = 4"
  shows "fst (read_data client unit_id function_code address count w) =
     (case client (read_request function_code address count unit_id) of
        Inl e \<Rightarrow> (if is_ModbusException e then Inr None else Inl e)
      | Inr result \<Rightarrow>
          (if isError result then Inr None
           else if function_code = 1 \<or> function_code = 2
           then Inr (Some (map BoolV (bits result)))
           else Inr (Some (map IntV (registers result)))))"
  using assms
  by (auto simp: read_data_def read_body_def read_request_def try_except_def and_then_def
      emit_def call_def return_def Let_def split: sum.splits)

theorem read_data_outcome_witness:
  "fst (read_data (\<lambda>_. Inl NoSuchSlaveException) 1 3 10 2 w0) = Inr None \<and>
   fst (read_data (\<lambda>_. Inr \<lparr>isError = True, bits = [], registers = []\<rparr>) 1 3 10 2 w0) = Inr None \<and>
   fst (read_data (\<lambda>_. Inr \<lparr>isError = False, bits = [], registers = [7, 8]\<rparr>) 1 3 10 2 w0) =
     Inr (Some [IntV 7, IntV 8])"
  using read_data_outcome [of 3 "\<lambda>_. Inl NoSuchSlaveException" 1 10 2 w0]
    read_data_outcome [of 3 "\<lambda>_. Inr \<lparr>isError = True, bits = [], registers = []\<rparr>" 1 10 2 w0]
    read_data_outcome [of 3 "\<lambda>_. Inr \<lparr>isError = False, bits = [], registers = [7, 8]\<rparr>" 1 10 2 w0]
  by simp

subsection \<open>A single write with a count other than one\<close>

lemma write_data_fc5_bad_count:
  assumes "count \<noteq> 1"
  shows "write_data E client unit_id 5 address count random_values w =
     (Inl (UsageError ''Function code 5 requires count=1''),
      if random_values
      then w\<lparr>draws := draws w + nat count,
             trace := trace w @ [Echo ''Generated random coil values'']\<rparr>
      else w\<lparr>asked := asked w + nat count,
             trace := trace w @ map (\<lambda>i. PromptCoil (address + int i)) [0..<nat count]\<rparr>)"
  using assms
  by (simp add: write_data_def write_body_def try_except_def and_then_def raise_def
      return_def emit_def choices_eq prompt_coils_eq)

lemma write_data_fc6_bad_count:
  assumes "count \<noteq> 1"
  shows "write_data E client unit_id 6 address count random_values w =
     (Inl (UsageError ''Function code 6 requires count=1''),
      if random_values
      then w\<lparr>draws := draws w + nat count,
             trace := trace w @ [Echo ''Generated random register values'']\<rparr>
      else w\<lparr>asked := asked w + nat count,
             trace := trace w @ map (\<lambda>i. PromptRegister (address + int i)) [0..<nat count]\<rparr>)"
  using assms
  by (simp add: write_data_def write_body_def try_except_def and_then_def raise_def
      return_def emit_def randints_eq prompt_registers_eq)

text \<open>
  Claim C1. A write with function code 5 or 6 and a count other than 1 is left by the
  usage error that names the function code. The client calls in the trace are those that
  were there before, so no \<open>write_coil\<close> and no \<open>write_register\<close> was made, and the
  datastore is untouched.
\<close>

theorem single_write_cardinality:
  assumes "function_code = 5 \<or> function_code = 6" and "count \<noteq> 1"
  shows "fst (write_data E client unit_id function_code address count random_values w) =
           Inl (UsageError (if function_code = 5 then ''Function code 5 requires count=1''
                            else ''Function code 6 requires count=1'')) \<and>
         calls_of (trace (snd (write_data E client unit_id function_code address count
                                 random_values w))) = calls_of (trace w) \<and>
         slaves (snd (write_data E client unit_id function_code address count
                        random_values w)) = slaves w"
proof -
  from assms(1) show ?thesis
  proof
    assume "function_code = 5"
    then show ?thesis
      by (simp add: write_data_fc5_bad_count [OF assms(2)] calls_of_append
          calls_of_prompt_coils)
  next
    assume "function_code = 6"
    then show ?thesis
      by (simp add: write_data_fc6_bad_count [OF assms(2)] calls_of_append
          calls_of_prompt_registers)
  qed
qed

theorem single_write_cardinality_witness:
  "fst (write_data E0 client_ok 1 6 10 2 True w0) =
      Inl (UsageError ''Function code 6 requires count=1'') \<and>
   calls_of (trace (snd (write_data E0 client_ok 1 6 10 2 True w0))) = []"
  using single_write_cardinality [of 6 2 E0 client_ok 1 10 True w0]
  by (simp add: w0_def)

text \<open>
  Claim C10. Before that usage error is raised, the values have been collected: with
  random values, as many draws as the count were consumed and the generated list was
  echoed; without, the operator was asked once for each of the addresses from
  \<open>address\<close> on, as many times as the count (no time for a count below one). Nothing
  else has happened by then, in particular no client call.
\<close>

theorem single_write_collects_first:
  assumes "function_code = 5 \<or> function_code = 6" and "count \<noteq> 1"
  shows "write_data E client unit_id function_code address count random_values w =
     (Inl (UsageError (if function_code = 5 then ''Function code 5 requires count=1''
                       else ''Function code 6 requires count=1'')),
      if random_values
      then w\<lparr>draws := draws w + nat count,
             trace := trace w @ [Echo (if function_code = 5 then ''Generated random coil values''
                                       else ''Generated random register values'')]\<rparr>
      else w\<lparr>asked := asked w + nat count,
             trace := trace w @ map (\<lambda>i. if function_code = 5 then PromptCoil (address + int i)
                                          else PromptRegister (address + int i))
                                  [0..<nat count]\<rparr>)"
proof -
  from assms(1) show ?thesis
  proof
    assume "function_code = 5"
    then show ?thesis by (simp add: write_data_fc5_bad_count [OF assms(2)])
  next
    assume "function_code = 6"
    then show ?thesis by (simp add: write_data_fc6_bad_count [OF assms(2)])
  qed
qed

theorem single_write_collects_first_witness:
  "write_data E0 client_ok 1 5 10 2 False w0 =
     (Inl (UsageError ''Function code 5 requires count=1''),
      \<lparr>draws = 0, asked = 2, trace = [PromptCoil 10, PromptCoil 11], slaves = Map.empty\<rparr>)"
  using single_write_collects_first [of 5 2 E0 client_ok 1 10 False w0]
  by (simp add: w0_def upt_conv_Cons)

subsection \<open>Validation at the start of the slave command\<close>

text \<open>
  Claim C6. With \<open>max_register_value\<close> below 0 or above 65535 the slave command is left
  by a usage error, and the world is the one it started from: no context was created, no
  update thread and no server was started.
\<close>

theorem slave_rejects_max_register_value:
  assumes "max_register_value < 0 \<or> max_register_value > 65535"
  shows "slave E protocol port baudrate host tcp_port unit_id coils discrete_inputs
           holding_registers input_registers random_init max_register_value random_update w =
         (Inl (UsageError ''max-register-value must be between 0 and 65535''), w)"
  using assms by (simp add: slave_def raise_def)


subsection \<open>The update loop leaves the read-only banks alone\<close>

lemma and_then_preserves:
  assumes "\<And>w. Q w \<Longrightarrow> Q (snd (m w))" and "\<And>v w. Q w \<Longrightarrow> Q (snd (f v w))" and "Q w"
  shows "Q (snd (and_then m f w))"
proof (cases "m w")
  case (Pair r w')
  with assms(1) [OF assms(3)] have q: "Q w'" by simp
  show ?thesis
  proof (cases r)
    case (Inl e)
    with Pair q show ?thesis by (simp add: and_then_def)
  next
    case (Inr v)
    with Pair assms(2) [OF q, of v] show ?thesis by (simp add: and_then_def)
  qed
qed

lemma try_except_preserves:
  assumes "\<And>w. Q w \<Longrightarrow> Q (snd (m w))" and "\<And>e w. Q w \<Longrightarrow> Q (snd (h e w))" and "Q w"
  shows "Q (snd (try_except m handles h w))"
proof (cases "m w")
  case (Pair r w')
  with assms(1) [OF assms(3)] have q: "Q w'" by simp
  show ?thesis
  proof (cases r)
    case (Inl e)
    with Pair q assms(2) [OF q, of e] show ?thesis by (simp add: try_except_def)
  next
    case (Inr v)
    with Pair q show ?thesis by (simp add: try_except_def)
  qed
qed

lemma slaves_choices: "slaves (snd (choices E n w)) = slaves w"
  by (simp add: choices_eq)

lemma trace_choices: "trace (snd (choices E n w)) = trace w"
  by (simp add: choices_eq)

lemma randints_cases:
  "randints E a b n w =
     (if a \<le> b \<or> n = 0
      then (Inr (map (\<lambda>i. a + int (rnd E (draws w + i)) mod (b - a + 1)) [0..<n]),
            w\<lparr>draws := draws w + n\<rparr>)
      else (Inl ValueError, w))"
proof (cases "a \<le> b")
  case True
  then show ?thesis by (simp add: randints_eq)
next
  case False
  then show ?thesis
    by (cases n) (simp_all add: return_def and_then_def random_randint_def)
qed

lemma slaves_randints: "slaves (snd (randints E a b n w)) = slaves w"
  by (simp add: randints_cases)

lemma trace_randints: "trace (snd (randints E a b n w)) = trace w"
  by (simp add: randints_cases)

lemma inputs_emit: "inputs (snd (emit ev w)) = inputs w"
  by (simp add: emit_def inputs_def fun_eq_iff)

lemma inputs_sleep: "inputs (snd (sleep t w)) = inputs w"
  by (simp add: sleep_def emit_def raise_def inputs_def fun_eq_iff)

lemma inputs_first: "inputs (snd (first xs w)) = inputs w"
  by (cases xs) (simp_all add: first_def raise_def return_def)

lemma inputs_choices: "inputs (snd (choices E n w)) = inputs w"
  by (simp add: inputs_def fun_eq_iff slaves_choices)

lemma inputs_randints: "inputs (snd (randints E a b n w)) = inputs w"
  by (simp add: inputs_def fun_eq_iff slaves_randints)

lemma inputs_context_getValues: "inputs (snd (context_getValues u fx a c w)) = inputs w"
  by (simp add: context_getValues_def and_then_def get_slave_def inputs_def fun_eq_iff
      split: option.splits)

lemma inputs_context_setValues:
  assumes "fx = 1 \<or> fx = 3"
  shows "inputs (snd (context_setValues u fx a vs w)) = inputs w"
  using assms
  by (auto simp: context_setValues_def and_then_def get_slave_def inputs_def fun_eq_iff
      slave_setValues_def decode_def split: option.splits)

lemma inputs_update_tick:
  "inputs w = c \<Longrightarrow> inputs (snd (update_tick E u cc hc m t w)) = c"
  unfolding update_tick_def
  by (intro and_then_preserves [where Q = "\<lambda>w. inputs w = c"])
     (simp_all add: inputs_emit inputs_sleep inputs_first inputs_choices inputs_randints
        inputs_context_getValues inputs_context_setValues)

lemma inputs_update_step:
  "inputs w = c \<Longrightarrow> inputs (snd (update_step E u cc hc m t w)) = c"
  unfolding update_step_def
  by (intro try_except_preserves [where Q = "\<lambda>w. inputs w = c"]
        and_then_preserves [where Q = "\<lambda>w. inputs w = c"])
     (simp_all add: inputs_update_tick inputs_emit inputs_sleep)

lemma inputs_update_random_values:
  "inputs (snd (update_random_values n E u cc hc m t w)) = inputs w"
proof (induction n arbitrary: w)
  case 0
  show ?case by simp
next
  case (Suc n)
  obtain r w' where s: "update_step E u cc hc m t w = (r, w')"
    by (cases "update_step E u cc hc m t w")
  with inputs_update_step [of w "inputs w" E u cc hc m t] have "inputs w' = inputs w"
    by simp
  with s Suc.IH [of w'] show ?case
    by (cases r) simp_all
qed

text \<open>
  Claim C9. However many rounds the update loop has run, and whether their ticks
  succeeded or failed, the discrete-inputs block and the input-registers block of every
  unit of the context are the ones from before the loop.
\<close>

theorem updater_leaves_input_banks:
  "map_option di (slaves (snd (update_random_values n E unit_id coils_count
        holding_registers_count max_register_value update_interval w)) u) =
     map_option di (slaves w u) \<and>
   map_option ir (slaves (snd (update_random_values n E unit_id coils_count
        holding_registers_count max_register_value update_interval w)) u) =
     map_option ir (slaves w u)"
proof -
  have "inputs (snd (update_random_values n E unit_id coils_count
        holding_registers_count max_register_value update_interval w)) u = inputs w u"
    by (simp add: inputs_update_random_values)
  then show ?thesis
    by (cases "slaves w u"; cases "slaves (snd (update_random_values n E unit_id coils_count
        holding_registers_count max_register_value update_interval w)) u")
       (simp_all add: inputs_def)
qed

subsection \<open>The update loop survives the errors of its ticks\<close>















subsection \<open>Concrete runs of the slave\<close>

lemma new_block_eq:
  "new_block address vals w =
     (if vals = [] then (Inl IndexError, w)
      else (Inr \<lparr>blk_address = address, blk_values = vals\<rparr>, w))"
  by (cases vals) (simp_all add: new_block_def raise_def return_def)

lemma w_slave_eq:
  "w_slave = \<lparr>draws = 0, asked = 0, trace = [Log INFO ''Initialized server context''],
     slaves = [1 \<mapsto> \<lparr>di = \<lparr>blk_address = 1, blk_values = [BoolV False, BoolV False]\<rparr>,
                       co = \<lparr>blk_address = 1, blk_values = [BoolV False, BoolV False]\<rparr>,
                       hr = \<lparr>blk_address = 1, blk_values = [IntV 0, IntV 0]\<rparr>,
                       ir = \<lparr>blk_address = 1, blk_values = [IntV 0, IntV 0]\<rparr>\<rparr>]\<rparr>"
  by (simp add: w_slave_def initialize_server_context_def new_block_eq and_then_def return_def
      emit_def w0_def Let_def numeral_2_eq_2)


theorem slave_rejects_max_register_value_witness:
  "slave E0 ''tcp'' None 9600 ''0.0.0.0'' 502 1 10 10 10 10 True 100000 True w0 =
     (Inl (UsageError ''max-register-value must be between 0 and 65535''), w0)"
  using slave_rejects_max_register_value [of 100000 E0 "''tcp''" None 9600 "''0.0.0.0''" 502 1
      10 10 10 10 True True w0]
  by simp


lemma slave_unit_2:
  "snd (slave E0 ''tcp'' None 9600 ''0.0.0.0'' 502 2 2 2 2 2 False 100 True w0) =
     w_slave\<lparr>trace := [Log INFO ''Initialized server context'', ThreadStart 2 2 2 100 1,
                       Log INFO ''Started random value update thread (1 Hz)'',
                       Log INFO ''Starting TCP server'', Echo ''Starting TCP server'',
                       StartTcpServer ''0.0.0.0'' 502]\<rparr>"
  by (simp add: slave_def w_slave_def initialize_server_context_def new_block_eq and_then_def
      return_def emit_def try_except_def start_server_def w0_def Let_def numeral_2_eq_2)

text \<open>
  A bank without cells: the slave command is left by the IndexError of the first block
  constructor, before the thread and the server are started.
\<close>

lemma slave_empty_bank:
  "slave E0 ''tcp'' None 9600 ''0.0.0.0'' 502 1 0 2 2 2 False 100 True w0 = (Inl IndexError, w0)"
  by (simp add: slave_def initialize_server_context_def new_block_eq and_then_def return_def)

lemma update_tick_no_unit:
  "slaves w u = None \<Longrightarrow>
   update_tick E u cc hc m t w = (Inl NoSuchSlaveException, w\<lparr>draws := draws w + nat cc\<rparr>)"
  by (simp add: update_tick_def and_then_def choices_eq context_setValues_def get_slave_def)

text \<open>
  Claim C3, evaluated on the code. The slave command is started for unit 2. The context it
  builds has unit 1 as its only key, so unit 2 is not mapped to the new slave context, and
  a tick of the update thread, which is started for unit 2, fails at \<open>context[unit_id]\<close>
  with NoSuchSlaveException.
\<close>

theorem slave_context_ignores_unit_id:
  "slaves (snd (slave E0 ''tcp'' None 9600 ''0.0.0.0'' 502 2 2 2 2 2 False 100 True w0)) 2 = None \<and>
   dom (slaves (snd (slave E0 ''tcp'' None 9600 ''0.0.0.0'' 502 2 2 2 2 2 False 100 True w0))) = {1} \<and>
   fst (update_tick E0 2 2 2 100 1
          (snd (slave E0 ''tcp'' None 9600 ''0.0.0.0'' 502 2 2 2 2 2 False 100 True w0))) =
     Inl NoSuchSlaveException"
proof -
  have a: "slaves (snd (slave E0 ''tcp'' None 9600 ''0.0.0.0'' 502 2 2 2 2 2 False 100 True w0)) 2
             = None"
    unfolding slave_unit_2 by (simp add: w_slave_eq)
  have b: "dom (slaves (snd (slave E0 ''tcp'' None 9600 ''0.0.0.0'' 502 2 2 2 2 2 False 100 True
             w0))) = {1}"
    unfolding slave_unit_2 by (simp add: w_slave_eq)
  from a b show ?thesis by (simp add: update_tick_no_unit)
qed


subsection \<open>A tick that succeeds\<close>

lemma and_then_InrD:
  assumes "and_then m f w = (Inr v, w')"
  obtains x w1 where "m w = (Inr x, w1)" and "f x w1 = (Inr v, w')"
  using assms by (auto simp: and_then_def split: prod.splits sum.splits)

lemma context_setValues_InrD:
  assumes "context_setValues u fx a vs w = (Inr v, w')"
  shows "trace w' = trace w @ [SetValues u fx a vs] \<and> draws w' = draws w"
  using assms
  by (auto simp: context_setValues_def and_then_def get_slave_def
      split: option.splits sum.splits)

lemma context_getValues_first_InrD:
  assumes "and_then (context_getValues u fx a c) first w = (Inr v, w')"
  shows "trace w' = trace w @ [GetValues u fx a c] \<and> draws w' = draws w"
  using assms
  by (auto simp: context_getValues_def and_then_def get_slave_def first_def raise_def
      return_def split: option.splits sum.splits list.splits)

lemma first_InrD:
  assumes "first xs w = (Inr v, w')"
  shows "w' = w"
  using assms by (cases xs) (simp_all add: first_def raise_def return_def)

lemma sleep_InrD:
  assumes "sleep t w = (Inr v, w')"
  shows "w' = w\<lparr>trace := trace w @ [Sleep t]\<rparr>"
  using assms by (cases "t < 0") (simp_all add: sleep_def raise_def emit_def)

lemma randints_InrD:
  assumes "randints E 0 m n w = (Inr vs, w')"
  shows "vs = map (\<lambda>i. int (rnd E (draws w + i)) mod (m + 1)) [0..<n] \<and>
         w' = w\<lparr>draws := draws w + n\<rparr>"
  using assms by (simp add: randints_cases split: if_splits)

text \<open>
  The calls of a tick. A tick whose body runs to its end has added exactly these effects,
  in this order: one \<open>setValues\<close> for function code 1 (the coils) at address 1 with as many fresh
  draws as \<open>coils_count\<close>, one \<open>setValues\<close> for function code 3 (the holding registers)
  at address 1 with as many fresh draws as \<open>holding_registers_count\<close>, the read-back of
  the first register, the log lines and the sleep. No other datastore write is made.
\<close>

theorem successful_tick_writes:
  assumes "fst (update_tick E unit_id coils_count holding_registers_count max_register_value
                  update_interval w) = Inr ()"
  shows "trace (snd (update_tick E unit_id coils_count holding_registers_count
                       max_register_value update_interval w)) =
     trace w @
       [SetValues unit_id 1 1
          (map (\<lambda>i. BoolV (even (rnd E (draws w + i)))) [0..<nat coils_count]),
        Log DEBUG ''Updated coils with random values starting at 1'',
        SetValues unit_id 3 1
          (map (\<lambda>i. IntV (int (rnd E (draws w + nat coils_count + i)) mod (max_register_value + 1)))
             [0..<nat holding_registers_count]),
        GetValues unit_id 3 1 1,
        Log DEBUG ''Verified first holding register at address 1'',
        Log DEBUG ''Updated holding registers with random values starting at 1'',
        Sleep update_interval]"
proof -
  obtain w' where t: "update_tick E unit_id coils_count holding_registers_count
      max_register_value update_interval w = (Inr (), w')"
    using assms by (cases "update_tick E unit_id coils_count holding_registers_count
      max_register_value update_interval w") simp
  from t obtain coils w1 where
    s1: "choices E (nat coils_count) w = (Inr coils, w1)" and
    r1: "and_then (context_setValues unit_id 1 1 (map BoolV coils)) (\<lambda>_.
          and_then (emit (Log DEBUG ''Updated coils with random values starting at 1'')) (\<lambda>_.
          and_then (randints E 0 max_register_value (nat holding_registers_count)) (\<lambda>registers.
          and_then (context_setValues unit_id 3 1 (map IntV registers)) (\<lambda>_.
          and_then (and_then (context_getValues unit_id 3 1 1) first) (\<lambda>first_register.
          and_then (first registers) (\<lambda>_.
          and_then (emit (Log DEBUG ''Verified first holding register at address 1'')) (\<lambda>_.
          and_then (emit (Log DEBUG ''Updated holding registers with random values starting at 1'')) (\<lambda>_.
          sleep update_interval)))))))) w1 = (Inr (), w')"
    unfolding update_tick_def by (rule and_then_InrD)
  from s1 have coils: "coils = map (\<lambda>i. even (rnd E (draws w + i))) [0..<nat coils_count]"
    and w1: "w1 = w\<lparr>draws := draws w + nat coils_count\<rparr>"
    by (simp_all add: choices_eq)
  from r1 obtain x2 w2 where
    s2: "context_setValues unit_id 1 1 (map BoolV coils) w1 = (Inr x2, w2)" and
    r2: "and_then (emit (Log DEBUG ''Updated coils with random values starting at 1'')) (\<lambda>_.
          and_then (randints E 0 max_register_value (nat holding_registers_count)) (\<lambda>registers.
          and_then (context_setValues unit_id 3 1 (map IntV registers)) (\<lambda>_.
          and_then (and_then (context_getValues unit_id 3 1 1) first) (\<lambda>first_register.
          and_then (first registers) (\<lambda>_.
          and_then (emit (Log DEBUG ''Verified first holding register at address 1'')) (\<lambda>_.
          and_then (emit (Log DEBUG ''Updated holding registers with random values starting at 1'')) (\<lambda>_.
          sleep update_interval))))))) w2 = (Inr (), w')"
    by (rule and_then_InrD)
  from context_setValues_InrD [OF s2] w1
  have w2: "trace w2 = trace w @ [SetValues unit_id 1 1 (map BoolV coils)]"
    "draws w2 = draws w + nat coils_count" by simp_all
  from r2 obtain x3 w3 where
    s3: "emit (Log DEBUG ''Updated coils with random values starting at 1'') w2 = (Inr x3, w3)" and
    r3: "and_then (randints E 0 max_register_value (nat holding_registers_count)) (\<lambda>registers.
          and_then (context_setValues unit_id 3 1 (map IntV registers)) (\<lambda>_.
          and_then (and_then (context_getValues unit_id 3 1 1) first) (\<lambda>first_register.
          and_then (first registers) (\<lambda>_.
          and_then (emit (Log DEBUG ''Verified first holding register at address 1'')) (\<lambda>_.
          and_then (emit (Log DEBUG ''Updated holding registers with random values starting at 1'')) (\<lambda>_.
          sleep update_interval)))))) w3 = (Inr (), w')"
    by (rule and_then_InrD)
  from s3 w2 have w3: "trace w3 = trace w @ [SetValues unit_id 1 1 (map BoolV coils),
      Log DEBUG ''Updated coils with random values starting at 1'']"
    "draws w3 = draws w + nat coils_count" by (auto simp: emit_def)
  from r3 obtain regs w4 where
    s4: "randints E 0 max_register_value (nat holding_registers_count) w3 = (Inr regs, w4)" and
    r4: "and_then (context_setValues unit_id 3 1 (map IntV regs)) (\<lambda>_.
          and_then (and_then (context_getValues unit_id 3 1 1) first) (\<lambda>first_register.
          and_then (first regs) (\<lambda>_.
          and_then (emit (Log DEBUG ''Verified first holding register at address 1'')) (\<lambda>_.
          and_then (emit (Log DEBUG ''Updated holding registers with random values starting at 1'')) (\<lambda>_.
          sleep update_interval))))) w4 = (Inr (), w')"
    by (rule and_then_InrD)
  from randints_InrD [OF s4] w3
  have regs: "regs = map (\<lambda>i. int (rnd E (draws w + nat coils_count + i)) mod (max_register_value + 1))
      [0..<nat holding_registers_count]"
    and w4: "trace w4 = trace w3" by simp_all
  from r4 obtain x5 w5 where
    s5: "context_setValues unit_id 3 1 (map IntV regs) w4 = (Inr x5, w5)" and
    r5: "and_then (and_then (context_getValues unit_id 3 1 1) first) (\<lambda>first_register.
          and_then (first regs) (\<lambda>_.
          and_then (emit (Log DEBUG ''Verified first holding register at address 1'')) (\<lambda>_.
          and_then (emit (Log DEBUG ''Updated holding registers with random values starting at 1'')) (\<lambda>_.
          sleep update_interval)))) w5 = (Inr (), w')"
    by (rule and_then_InrD)
  from context_setValues_InrD [OF s5] w4
  have w5: "trace w5 = trace w3 @ [SetValues unit_id 3 1 (map IntV regs)]" by simp
  from r5 obtain x6 w6 where
    s6: "and_then (context_getValues unit_id 3 1 1) first w5 = (Inr x6, w6)" and
    r6: "and_then (first regs) (\<lambda>_.
          and_then (emit (Log DEBUG ''Verified first holding register at address 1'')) (\<lambda>_.
          and_then (emit (Log DEBUG ''Updated holding registers with random values starting at 1'')) (\<lambda>_.
          sleep update_interval))) w6 = (Inr (), w')"
    by (rule and_then_InrD)
  from context_getValues_first_InrD [OF s6] w5
  have w6: "trace w6 = trace w3 @ [SetValues unit_id 3 1 (map IntV regs), GetValues unit_id 3 1 1]"
    by simp
  from r6 obtain x7 w7 where
    s7: "first regs w6 = (Inr x7, w7)" and
    r7: "and_then (emit (Log DEBUG ''Verified first holding register at address 1'')) (\<lambda>_.
          and_then (emit (Log DEBUG ''Updated holding registers with random values starting at 1'')) (\<lambda>_.
          sleep update_interval)) w7 = (Inr (), w')"
    by (rule and_then_InrD)
  from first_InrD [OF s7] have w7: "w7 = w6" .
  from r7 obtain x8 w8 where
    s8: "emit (Log DEBUG ''Verified first holding register at address 1'') w7 = (Inr x8, w8)" and
    r8: "and_then (emit (Log DEBUG ''Updated holding registers with random values starting at 1'')) (\<lambda>_.
          sleep update_interval) w8 = (Inr (), w')"
    by (rule and_then_InrD)
  from r8 obtain x9 w9 where
    s9: "emit (Log DEBUG ''Updated holding registers with random values starting at 1'') w8
           = (Inr x9, w9)" and
    r9: "sleep update_interval w9 = (Inr (), w')"
    by (rule and_then_InrD)
  from s8 s9 sleep_InrD [OF r9] w7 w6
  have "trace w' = trace w3 @ [SetValues unit_id 3 1 (map IntV regs), GetValues unit_id 3 1 1,
        Log DEBUG ''Verified first holding register at address 1'',
        Log DEBUG ''Updated holding registers with random values starting at 1'',
        Sleep update_interval]"
    by (auto simp: emit_def)
  with w3 coils regs t show ?thesis by (simp add: comp_def)
qed


lemma tick_unit_1:
  "fst (update_tick E0 1 2 2 100 1 w_slave) = Inr ()"
  by (simp add: update_tick_def and_then_def choices_eq randints_eq context_setValues_def
      context_getValues_def get_slave_def slave_setValues_def slave_getValues_def decode_def
      block_setValues_def block_getValues_def slice_set_def slice_get_def slice_bound_def
      first_def return_def emit_def sleep_def w_slave_eq Let_def upt_conv_Cons)

theorem successful_tick_writes_witness:
  "fst (update_tick E0 1 2 2 100 1 w_slave) = Inr () \<and>
   trace (snd (update_tick E0 1 2 2 100 1 w_slave)) =
     [Log INFO ''Initialized server context'',
      SetValues 1 1 1 [BoolV False, BoolV True],
      Log DEBUG ''Updated coils with random values starting at 1'',
      SetValues 1 3 1 [IntV 7, IntV 10],
      GetValues 1 3 1 1,
      Log DEBUG ''Verified first holding register at address 1'',
      Log DEBUG ''Updated holding registers with random values starting at 1'',
      Sleep 1]"
  using successful_tick_writes [OF tick_unit_1] tick_unit_1
  by (simp add: w_slave_eq E0_def upt_conv_Cons)

subsection \<open>Where the values of a tick land in the banks\<close>

text \<open>
  A write of as many values as a block has cells, at address 1 of the slave context, to a
  block that starts at address 1: the slave context passes address 2 to the block, so the
  first cell keeps its value, the values follow it, and the block has one cell more.
\<close>

lemma slave_setValues_address_1:
  assumes "decode fx = Some k" and "blk_address (bank_of s k) = 1"
    and "length (blk_values (bank_of s k)) = length vs" and "vs \<noteq> []"
  shows "slave_setValues s fx 1 vs =
     Inr (bank_upd s k ((bank_of s k)\<lparr>blk_values := hd (blk_values (bank_of s k)) # vs\<rparr>))"
proof -
  from assms(3,4) obtain x xs where xs: "blk_values (bank_of s k) = x # xs"
    by (cases "blk_values (bank_of s k)") auto
  with assms(3) have "length xs < length vs" by simp
  with xs assms(1,2,3) show ?thesis
    by (simp add: slave_setValues_def block_setValues_def slice_set_def slice_bound_def
        Let_def)
qed

lemma slave_unit_1:
  "snd (slave E0 ''tcp'' None 9600 ''0.0.0.0'' 502 1 2 2 2 2 False 100 True w0) =
     w_slave\<lparr>trace := [Log INFO ''Initialized server context'', ThreadStart 1 2 2 100 1,
                       Log INFO ''Started random value update thread (1 Hz)'',
                       Log INFO ''Starting TCP server'', Echo ''Starting TCP server'',
                       StartTcpServer ''0.0.0.0'' 502]\<rparr>"
  by (simp add: slave_def w_slave_def initialize_server_context_def new_block_eq and_then_def
      return_def emit_def try_except_def start_server_def w0_def Let_def numeral_2_eq_2)

lemma first_tick_unit_1:
  "update_tick E0 1 2 2 100 1
     (w_slave\<lparr>trace := [Log INFO ''Initialized server context'', ThreadStart 1 2 2 100 1,
                       Log INFO ''Started random value update thread (1 Hz)'',
                       Log INFO ''Starting TCP server'', Echo ''Starting TCP server'',
                       StartTcpServer ''0.0.0.0'' 502]\<rparr>) =
   (Inr (),
    \<lparr>draws = 4, asked = 0,
     trace = [Log INFO ''Initialized server context'', ThreadStart 1 2 2 100 1,
              Log INFO ''Started random value update thread (1 Hz)'',
              Log INFO ''Starting TCP server'', Echo ''Starting TCP server'',
              StartTcpServer ''0.0.0.0'' 502,
              SetValues 1 1 1 [BoolV False, BoolV True],
              Log DEBUG ''Updated coils with random values starting at 1'',
              SetValues 1 3 1 [IntV 7, IntV 10],
              GetValues 1 3 1 1,
              Log DEBUG ''Verified first holding register at address 1'',
              Log DEBUG ''Updated holding registers with random values starting at 1'',
              Sleep 1],
     slaves = [1 \<mapsto> \<lparr>di = \<lparr>blk_address = 1, blk_values = [BoolV False, BoolV False]\<rparr>,
                       co = \<lparr>blk_address = 1,
                             blk_values = [BoolV False, BoolV False, BoolV True]\<rparr>,
                       hr = \<lparr>blk_address = 1, blk_values = [IntV 0, IntV 7, IntV 10]\<rparr>,
                       ir = \<lparr>blk_address = 1, blk_values = [IntV 0, IntV 0]\<rparr>\<rparr>]\<rparr>)"
  by (simp add: update_tick_def and_then_def choices_eq randints_eq context_setValues_def
      context_getValues_def get_slave_def slave_setValues_def slave_getValues_def decode_def
      block_setValues_def block_getValues_def slice_set_def slice_get_def slice_bound_def
      first_def return_def emit_def sleep_def w_slave_eq E0_def Let_def upt_conv_Cons)

text \<open>
  Claim C5, evaluated on the code. The slave command is started for unit 1 with two cells
  in every bank, all of them False or 0, and the update thread runs its first tick. The
  tick succeeds and makes one \<open>setValues\<close> call per bank, for the coils and for the
  holding registers, each at address 1 with two fresh values. In the banks the values do
  not start at the first cell: the first coil and the first holding register keep their
  initial value, the two values follow, and each of the two banks has three cells
  afterwards.
\<close>

theorem tick_misses_first_cell:
  "fst (update_tick E0 1 2 2 100 1
          (snd (slave E0 ''tcp'' None 9600 ''0.0.0.0'' 502 1 2 2 2 2 False 100 True w0))) = Inr () \<and>
   filter is_SetValues (trace (snd (update_tick E0 1 2 2 100 1
          (snd (slave E0 ''tcp'' None 9600 ''0.0.0.0'' 502 1 2 2 2 2 False 100 True w0))))) =
     [SetValues 1 1 1 [BoolV False, BoolV True], SetValues 1 3 1 [IntV 7, IntV 10]] \<and>
   map_option (\<lambda>s. (blk_values (co s), blk_values (hr s)))
     (slaves (snd (slave E0 ''tcp'' None 9600 ''0.0.0.0'' 502 1 2 2 2 2 False 100 True w0)) 1) =
     Some ([BoolV False, BoolV False], [IntV 0, IntV 0]) \<and>
   map_option (\<lambda>s. (blk_values (co s), blk_values (hr s)))
     (slaves (snd (update_tick E0 1 2 2 100 1
          (snd (slave E0 ''tcp'' None 9600 ''0.0.0.0'' 502 1 2 2 2 2 False 100 True w0)))) 1) =
     Some ([BoolV False, BoolV False, BoolV True], [IntV 0, IntV 7, IntV 10])"
  unfolding slave_unit_1 first_tick_unit_1
  by (simp add: w_slave_eq)

subsection \<open>The range of the generated values\<close>

lemma and_then_preserves_result:
  assumes "\<And>w. Q w \<Longrightarrow> Q (snd (m w))" and "\<And>w v. fst (m w) = Inr v \<Longrightarrow> R v"
    and "\<And>v w. R v \<Longrightarrow> Q w \<Longrightarrow> Q (snd (f v w))" and "Q w"
  shows "Q (snd (and_then m f w))"
proof (cases "m w")
  case (Pair r w')
  with assms(1) [OF assms(4)] have q: "Q w'" by simp
  show ?thesis
  proof (cases r)
    case (Inl e)
    with Pair q show ?thesis by (simp add: and_then_def)
  next
    case (Inr v)
    with Pair assms(2) [of w v] have "R v" by simp
    from assms(3) [OF this q] Inr Pair show ?thesis by (simp add: and_then_def)
  qed
qed

lemma mod_in_range: "0 \<le> m \<Longrightarrow> in_range m (int k mod (m + 1))"
  using pos_mod_bound [of "m + 1" "int k"] by (simp add: in_range_def)

lemma randints_in_range:
  assumes "fst (randints E 0 m n w) = Inr vs"
  shows "list_all (in_range m) vs"
  using assms
  by (auto simp: randints_cases list_all_iff mod_in_range split: if_splits)

lemma register_cells: "list_all (register_cell m) (map IntV vs) = list_all (in_range m) vs"
  by (induction vs) simp_all

lemma bool_cells: "list_all bool_cell (map BoolV bs)"
  by (induction bs) simp_all

lemma values_ok_emit: "event_values_ok m ev \<Longrightarrow> values_ok m w \<Longrightarrow> values_ok m (snd (emit ev w))"
  by (simp add: values_ok_def emit_def)

lemma values_ok_sleep: "values_ok m w \<Longrightarrow> values_ok m (snd (sleep t w))"
  by (simp add: values_ok_def sleep_def emit_def raise_def)

lemma values_ok_first: "values_ok m w \<Longrightarrow> values_ok m (snd (first xs w))"
  by (cases xs) (simp_all add: first_def raise_def return_def)

lemma values_ok_choices: "values_ok m w \<Longrightarrow> values_ok m (snd (choices E n w))"
  by (simp add: values_ok_def trace_choices)

lemma values_ok_randints: "values_ok m w \<Longrightarrow> values_ok m (snd (randints E a b n w))"
  by (simp add: values_ok_def trace_randints)

lemma values_ok_context_getValues:
  "values_ok m w \<Longrightarrow> values_ok m (snd (context_getValues u fx a c w))"
  by (auto simp: values_ok_def context_getValues_def and_then_def get_slave_def
      split: option.splits)

lemma values_ok_context_setValues:
  "event_values_ok m (SetValues u fx a vs) \<Longrightarrow> values_ok m w \<Longrightarrow>
   values_ok m (snd (context_setValues u fx a vs w))"
  by (auto simp: values_ok_def context_setValues_def and_then_def get_slave_def
      split: option.splits sum.splits)

lemma values_ok_tick_tail:
  assumes "list_all (in_range m) regs" and "values_ok m w"
  shows "values_ok m (snd (
          and_then (context_setValues u 3 1 (map IntV regs)) (\<lambda>_.
          and_then (and_then (context_getValues u 3 1 1) first) (\<lambda>first_register.
          and_then (first regs) (\<lambda>_.
          and_then (emit (Log DEBUG ''Verified first holding register at address 1'')) (\<lambda>_.
          and_then (emit (Log DEBUG ''Updated holding registers with random values starting at 1'')) (\<lambda>_.
          sleep t))))) w))"
  using assms(2)
  by (intro and_then_preserves [where Q = "values_ok m"])
     (simp_all add: values_ok_emit values_ok_sleep values_ok_first values_ok_context_getValues
        values_ok_context_setValues register_cells assms(1))

lemma values_ok_tick_mid:
  assumes "values_ok m w"
  shows "values_ok m (snd (
          and_then (randints E 0 m (nat hc)) (\<lambda>registers.
          and_then (context_setValues u 3 1 (map IntV registers)) (\<lambda>_.
          and_then (and_then (context_getValues u 3 1 1) first) (\<lambda>first_register.
          and_then (first registers) (\<lambda>_.
          and_then (emit (Log DEBUG ''Verified first holding register at address 1'')) (\<lambda>_.
          and_then (emit (Log DEBUG ''Updated holding registers with random values starting at 1'')) (\<lambda>_.
          sleep t)))))) w))"
proof (rule and_then_preserves_result [where Q = "values_ok m" and R = "list_all (in_range m)"])
  show "values_ok m w" by (rule assms)
next
  fix w assume "values_ok m w"
  then show "values_ok m (snd (randints E 0 m (nat hc) w))" by (rule values_ok_randints)
next
  fix w v assume "fst (randints E 0 m (nat hc) w) = Inr v"
  then show "list_all (in_range m) v" by (rule randints_in_range)
next
  fix v w assume "list_all (in_range m) v" and "values_ok m w"
  then show "values_ok m (snd (
          and_then (context_setValues u 3 1 (map IntV v)) (\<lambda>_.
          and_then (and_then (context_getValues u 3 1 1) first) (\<lambda>first_register.
          and_then (first v) (\<lambda>_.
          and_then (emit (Log DEBUG ''Verified first holding register at address 1'')) (\<lambda>_.
          and_then (emit (Log DEBUG ''Updated holding registers with random values starting at 1'')) (\<lambda>_.
          sleep t))))) w))"
    by (rule values_ok_tick_tail)
qed

lemma values_ok_update_tick:
  assumes "values_ok m w"
  shows "values_ok m (snd (update_tick E u cc hc m t w))"
  unfolding update_tick_def using assms
  apply (rule and_then_preserves [where Q = "values_ok m", rotated 2])
   apply (erule values_ok_choices)
  apply (rule and_then_preserves [where Q = "values_ok m", rotated 2])
    apply assumption
   apply (simp add: values_ok_context_setValues bool_cells)
  apply (rule and_then_preserves [where Q = "values_ok m", rotated 2])
    apply assumption
   apply (simp add: values_ok_emit)
  apply (erule values_ok_tick_mid)
  done

lemma values_ok_update_step:
  assumes "values_ok m w"
  shows "values_ok m (snd (update_step E u cc hc m t w))"
  unfolding update_step_def using assms
  by (intro try_except_preserves [where Q = "values_ok m"]
        and_then_preserves [where Q = "values_ok m"])
     (simp_all add: values_ok_update_tick values_ok_emit values_ok_sleep)

lemma values_ok_update_random_values:
  "values_ok m w \<Longrightarrow> values_ok m (snd (update_random_values n E u cc hc m t w))"
proof (induction n arbitrary: w)
  case 0
  then show ?case by simp
next
  case (Suc n)
  obtain r w' where s: "update_step E u cc hc m t w = (r, w')"
    by (cases "update_step E u cc hc m t w")
  with values_ok_update_step [OF Suc.prems, of E u cc hc t] have "values_ok m w'" by simp
  with s Suc.IH [of w'] show ?case by (cases r) simp_all
qed


lemma draw_le: "0 \<le> m \<Longrightarrow> int k mod (m + 1) \<le> m"
  using pos_mod_bound [of "m + 1" "int k"] by simp

lemma initialize_server_context_outcome:
  assumes "0 \<le> m"
  shows "if 1 \<le> c \<and> 1 \<le> d \<and> 1 \<le> h \<and> 1 \<le> i
         then fst (initialize_server_context E c d h i r m w) = Inr () \<and>
              (case slaves (snd (initialize_server_context E c d h i r m w)) 1 of
                 None \<Rightarrow> False | Some s \<Rightarrow> slave_values_ok m s)
         else fst (initialize_server_context E c d h i r m w) = Inl IndexError \<and>
              slaves (snd (initialize_server_context E c d h i r m w)) = slaves w"
  using assms
  by (auto simp: initialize_server_context_def new_block_eq and_then_def choices_eq
      randints_eq return_def emit_def Let_def slave_values_ok_def list_all_iff draw_le
      in_range_def)

lemma requests_ok_emit:
  "calls_of [ev] = [] \<Longrightarrow> requests_ok w \<Longrightarrow> requests_ok (snd (emit ev w))"
  by (simp add: requests_ok_def emit_def calls_of_append)

lemma requests_ok_call:
  "request_values_ok 65535 rq \<Longrightarrow> requests_ok w \<Longrightarrow> requests_ok (snd (call client rq w))"
  by (simp add: requests_ok_def call_def calls_of_append)

lemma requests_ok_first: "requests_ok w \<Longrightarrow> requests_ok (snd (first xs w))"
  by (cases xs) (simp_all add: first_def raise_def return_def)

lemma requests_ok_return: "requests_ok w \<Longrightarrow> requests_ok (snd (return v w))"
  by (simp add: return_def)

lemma requests_ok_raise: "requests_ok w \<Longrightarrow> requests_ok (snd (raise e w))"
  by (simp add: raise_def)

lemma requests_ok_choices: "requests_ok w \<Longrightarrow> requests_ok (snd (choices E n w))"
  by (simp add: requests_ok_def trace_choices)

lemma requests_ok_randints: "requests_ok w \<Longrightarrow> requests_ok (snd (randints E a b n w))"
  by (simp add: requests_ok_def trace_randints)

lemma requests_ok_write_report: "requests_ok w \<Longrightarrow> requests_ok (snd (write_report fc result w))"
  unfolding write_report_def
  by (auto intro!: and_then_preserves [where Q = requests_ok] requests_ok_emit
      requests_ok_return)

lemma first_in_range:
  assumes "list_all (in_range m) vs" and "fst (first vs w) = Inr v"
  shows "in_range m v"
  using assms by (cases vs) (simp_all add: first_def raise_def return_def)

lemma requests_ok_coils:
  assumes "requests_ok w"
  shows "requests_ok (snd (
           (if function_code = 5 then
              if count \<noteq> 1 then raise (UsageError ''Function code 5 requires count=1'')
              else
                and_then (first values)
                  (\<lambda>v. and_then (emit (Log DEBUG ''Sending write_coil''))
                     (\<lambda>_. call client (WriteCoil address v unit_id)))
            else
              and_then (emit (Log DEBUG ''Sending write_coils''))
                (\<lambda>_. call client (WriteCoils address values unit_id))) w))"
  using assms
  by (auto intro!: and_then_preserves [where Q = requests_ok] requests_ok_emit
      requests_ok_call requests_ok_first requests_ok_raise)

lemma requests_ok_single_register:
  assumes "in_range 65535 v" and "requests_ok w"
  shows "requests_ok (snd (
           and_then (emit (Log DEBUG ''Sending write_register''))
             (\<lambda>_. and_then (emit (Echo ''Sending FC6 (Write Single Register)''))
                (\<lambda>_. and_then (call client (WriteRegister address v unit_id))
                   (\<lambda>result.
                      if \<not> isError result
                      then and_then (emit (Echo ''FC6 Response'')) (\<lambda>_. return result)
                      else return result))) w))"
  using assms
  by (auto intro!: and_then_preserves [where Q = requests_ok] requests_ok_emit
      requests_ok_call requests_ok_return)

lemma requests_ok_registers:
  assumes "list_all (in_range 65535) values" and "requests_ok w"
  shows "requests_ok (snd (
           (if function_code = 6 then
              if count \<noteq> 1 then raise (UsageError ''Function code 6 requires count=1'')
              else
                and_then (first values)
                  (\<lambda>v. and_then (emit (Log DEBUG ''Sending write_register''))
                     (\<lambda>_. and_then (emit (Echo ''Sending FC6 (Write Single Register)''))
                        (\<lambda>_. and_then (call client (WriteRegister address v unit_id))
                           (\<lambda>result.
                              if \<not> isError result
                              then and_then (emit (Echo ''FC6 Response'')) (\<lambda>_. return result)
                              else return result))))
            else
              and_then (emit (Log DEBUG ''Sending write_registers''))
                (\<lambda>_. call client (WriteRegisters address values unit_id))) w))"
proof (cases "function_code = 6")
  case False
  with assms show ?thesis
    by (auto intro!: and_then_preserves [where Q = requests_ok] requests_ok_emit
        requests_ok_call)
next
  case True
  show ?thesis
  proof (cases "count \<noteq> 1")
    case True
    with \<open>function_code = 6\<close> assms(2) show ?thesis by (simp add: requests_ok_raise)
  next
    case False
    have "requests_ok (snd (and_then (first values)
                  (\<lambda>v. and_then (emit (Log DEBUG ''Sending write_register''))
                     (\<lambda>_. and_then (emit (Echo ''Sending FC6 (Write Single Register)''))
                        (\<lambda>_. and_then (call client (WriteRegister address v unit_id))
                           (\<lambda>result.
                              if \<not> isError result
                              then and_then (emit (Echo ''FC6 Response'')) (\<lambda>_. return result)
                              else return result)))) w))"
    proof (rule and_then_preserves_result [where Q = requests_ok and R = "in_range 65535"])
      show "requests_ok w" by (rule assms(2))
    next
      fix w assume "requests_ok w"
      then show "requests_ok (snd (first values w))" by (rule requests_ok_first)
    next
      fix w v assume "fst (first values w) = Inr v"
      with assms(1) show "in_range 65535 v" by (rule first_in_range)
    next
      fix v w assume "in_range 65535 v" and "requests_ok w"
      then show "requests_ok (snd (
           and_then (emit (Log DEBUG ''Sending write_register''))
             (\<lambda>_. and_then (emit (Echo ''Sending FC6 (Write Single Register)''))
                (\<lambda>_. and_then (call client (WriteRegister address v unit_id))
                   (\<lambda>result.
                      if \<not> isError result
                      then and_then (emit (Echo ''FC6 Response'')) (\<lambda>_. return result)
                      else return result))) w))"
        by (rule requests_ok_single_register)
    qed
    with False \<open>function_code = 6\<close> show ?thesis by simp
  qed
qed


lemma requests_ok_write_body:
  assumes "requests_ok w"
  shows "requests_ok (snd (write_body E client unit_id function_code address count True w))"
proof -
  consider (coils) "function_code = 5 \<or> function_code = 15"
    | (regs) "\<not> (function_code = 5 \<or> function_code = 15)"
        "function_code = 6 \<or> function_code = 16"
    | (other) "\<not> (function_code = 5 \<or> function_code = 15)"
        "\<not> (function_code = 6 \<or> function_code = 16)"
    by blast
  then show ?thesis
  proof cases
    case coils
    have "requests_ok (snd (and_then
            (and_then
              (and_then (choices E (nat count))
                 (\<lambda>values. and_then (emit (Echo ''Generated random coil values''))
                    (\<lambda>_. return values)))
              (\<lambda>values.
                 if function_code = 5 then
                   if count \<noteq> 1 then raise (UsageError ''Function code 5 requires count=1'')
                   else
                     and_then (first values)
                       (\<lambda>v. and_then (emit (Log DEBUG ''Sending write_coil''))
                          (\<lambda>_. call client (WriteCoil address v unit_id)))
                 else
                   and_then (emit (Log DEBUG ''Sending write_coils''))
                     (\<lambda>_. call client (WriteCoils address values unit_id))))
            (write_report function_code) w))"
      using assms
      by (intro and_then_preserves [where Q = requests_ok] requests_ok_write_report
          requests_ok_coils requests_ok_choices requests_ok_emit requests_ok_return) simp_all
    with coils show ?thesis by (simp add: write_body_def)
  next
    case regs
    have gen: "requests_ok (snd (and_then (randints E 0 65535 (nat count))
                 (\<lambda>values. and_then (emit (Echo ''Generated random register values''))
                    (\<lambda>_. return values)) w))" if "requests_ok w" for w
      using that
      by (intro and_then_preserves [where Q = requests_ok] requests_ok_randints
          requests_ok_emit requests_ok_return) simp_all
    have res: "list_all (in_range 65535) v"
      if "fst (and_then (randints E 0 65535 (nat count))
                 (\<lambda>values. and_then (emit (Echo ''Generated random register values''))
                    (\<lambda>_. return values)) w) = Inr v" for w v
      using that randints_in_range [of E 65535 "nat count" w]
      by (auto simp: and_then_def emit_def return_def split: prod.splits sum.splits)
    have "requests_ok (snd (and_then
            (and_then
              (and_then (randints E 0 65535 (nat count))
                 (\<lambda>values. and_then (emit (Echo ''Generated random register values''))
                    (\<lambda>_. return values)))
              (\<lambda>values.
                 if function_code = 6 then
                   if count \<noteq> 1 then raise (UsageError ''Function code 6 requires count=1'')
                   else
                     and_then (first values)
                       (\<lambda>v. and_then (emit (Log DEBUG ''Sending write_register''))
                          (\<lambda>_. and_then (emit (Echo ''Sending FC6 (Write Single Register)''))
                             (\<lambda>_. and_then (call client (WriteRegister address v unit_id))
                                (\<lambda>result.
                                   if \<not> isError result
                                   then and_then (emit (Echo ''FC6 Response'')) (\<lambda>_. return result)
                                   else return result))))
                 else
                   and_then (emit (Log DEBUG ''Sending write_registers''))
                     (\<lambda>_. call client (WriteRegisters address values unit_id))))
            (write_report function_code) w))"
    proof (rule and_then_preserves [where Q = requests_ok])
      show "requests_ok w" by (rule assms)
    next
      fix v w assume "requests_ok w"
      then show "requests_ok (snd (write_report function_code v w))"
        by (rule requests_ok_write_report)
    next
      fix w assume q: "requests_ok w"
      show "requests_ok (snd (and_then
              (and_then (randints E 0 65535 (nat count))
                 (\<lambda>values. and_then (emit (Echo ''Generated random register values''))
                    (\<lambda>_. return values)))
              (\<lambda>values.
                 if function_code = 6 then
                   if count \<noteq> 1 then raise (UsageError ''Function code 6 requires count=1'')
                   else
                     and_then (first values)
                       (\<lambda>v. and_then (emit (Log DEBUG ''Sending write_register''))
                          (\<lambda>_. and_then (emit (Echo ''Sending FC6 (Write Single Register)''))
                             (\<lambda>_. and_then (call client (WriteRegister address v unit_id))
                                (\<lambda>result.
                                   if \<not> isError result
                                   then and_then (emit (Echo ''FC6 Response'')) (\<lambda>_. return result)
                                   else return result))))
                 else
                   and_then (emit (Log DEBUG ''Sending write_registers''))
                     (\<lambda>_. call client (WriteRegisters address values unit_id))) w))"
        by (rule and_then_preserves_result
              [where Q = requests_ok and R = "list_all (in_range 65535)"])
           (simp_all add: gen res requests_ok_registers q)
    qed
    with regs show ?thesis by (simp add: write_body_def)
  next
    case other
    with assms show ?thesis by (simp add: write_body_def and_then_def raise_def)
  qed
qed

lemma requests_ok_write_data:
  assumes "requests_ok w"
  shows "requests_ok (snd (write_data E client unit_id function_code address count True w))"
  unfolding write_data_def using assms
  by (intro try_except_preserves [where Q = requests_ok]
        and_then_preserves [where Q = requests_ok] requests_ok_write_body requests_ok_emit)
     simp_all

text \<open>
  Claim C2, as the code has it. With a bound of at least 0 and at least one cell in every
  bank, \<open>initialize_server_context\<close> returns, and the context it built holds booleans in
  the two bit banks and registers within \<open>[0, max_register_value]\<close> in the two register
  banks; with a bank of no cell it is left by the IndexError of the block constructor and
  has built no context, so no value was stored. Every datastore write of the
  update loop carries booleans (function code 1) or registers within
  \<open>[0, max_register_value]\<close> (function code 3). Every register that \<open>write_data\<close> sends
  with random values lies within \<open>[0, 65535]\<close>: the master has no configured bound.
\<close>

theorem random_values_within_bounds:
  "(0 \<le> max_register_value \<longrightarrow>
      (if 1 \<le> coils \<and> 1 \<le> discrete_inputs \<and> 1 \<le> holding_registers \<and> 1 \<le> input_registers
       then fst (initialize_server_context E coils discrete_inputs holding_registers
                   input_registers random_init max_register_value w) = Inr () \<and>
            (case slaves (snd (initialize_server_context E coils discrete_inputs
                                 holding_registers input_registers random_init
                                 max_register_value w)) 1 of
               None \<Rightarrow> False
             | Some s \<Rightarrow> slave_values_ok max_register_value s)
       else fst (initialize_server_context E coils discrete_inputs holding_registers
                   input_registers random_init max_register_value w) = Inl IndexError \<and>
            slaves (snd (initialize_server_context E coils discrete_inputs holding_registers
                           input_registers random_init max_register_value w)) = slaves w)) \<and>
   (list_all (event_values_ok max_register_value) (trace w) \<longrightarrow>
      list_all (event_values_ok max_register_value)
        (trace (snd (update_random_values n E unit_id coils_count holding_registers_count
                       max_register_value update_interval w)))) \<and>
   (list_all (request_values_ok 65535) (calls_of (trace w)) \<longrightarrow>
      list_all (request_values_ok 65535)
        (calls_of (trace (snd (write_data E client unit_id function_code address count True w)))))"
  using initialize_server_context_outcome [of max_register_value coils discrete_inputs
      holding_registers input_registers E random_init w]
    values_ok_update_random_values [of max_register_value w n E unit_id coils_count
      holding_registers_count update_interval]
    requests_ok_write_data [of w E client unit_id function_code address count]
  by (simp add: values_ok_def requests_ok_def)

text \<open>
  Claim C2 as it was stated fails on the master's side. The register values of the
  master's random write are not bounded by a configured
  \<open>max_register_value\<close>: with a generator that draws 65535, a write of one register with
  function code 16 sends 65535, which is outside \<open>[0, 1000]\<close>.
\<close>

theorem master_random_registers_counterexample:
  "calls_of (trace (snd (write_data E_max client_ok 1 16 10 1 True w0))) =
     [WriteRegisters 10 [65535] 1] \<and>
   \<not> request_values_ok 1000 (WriteRegisters 10 [65535] 1)"
  by (simp add: write_data_def write_body_def write_report_def try_except_def and_then_def
      random_randint_def return_def emit_def call_def client_ok_def E_max_def w0_def
      in_range_def)

theorem random_values_within_bounds_witness:
  "(0::int) \<le> 100 \<and>
   fst (initialize_server_context E0 2 2 2 2 True 100 w0) = Inr () \<and>
   (case slaves (snd (initialize_server_context E0 2 2 2 2 True 100 w0)) 1 of
      None \<Rightarrow> False | Some s \<Rightarrow> slave_values_ok 100 s) \<and>
   fst (initialize_server_context E0 0 2 2 2 True 100 w0) = Inl IndexError \<and>
   slaves (snd (initialize_server_context E0 0 2 2 2 True 100 w0)) = slaves w0 \<and>
   list_all (event_values_ok 100) (trace w_slave) \<and>
   list_all (event_values_ok 100) (trace (snd (update_random_values 2 E0 1 2 2 100 1 w_slave))) \<and>
   list_all (request_values_ok 65535) (calls_of (trace w0)) \<and>
   list_all (request_values_ok 65535)
     (calls_of (trace (snd (write_data E_max client_ok 1 16 10 2 True w0))))"
  using random_values_within_bounds [of 100 2 2 2 2 E0 True w0]
    random_values_within_bounds [of 100 0 2 2 2 E0 True w0]
    random_values_within_bounds [of 100 2 2 2 2 E0 True w_slave 2 1 2 2 1]
    random_values_within_bounds [of 100 2 2 2 2 E_max True w0 2 1 2 2 1 client_ok 16 10 2]
  by (simp add: w_slave_eq) (simp add: w0_def)

theorem updater_leaves_input_banks_witness:
  "map_option di (slaves (snd (update_random_values 2 E0 1 2 2 100 1 w_slave)) 1) =
     Some \<lparr>blk_address = 1, blk_values = [BoolV False, BoolV False]\<rparr> \<and>
   map_option ir (slaves (snd (update_random_values 2 E0 1 2 2 100 1 w_slave)) 1) =
     Some \<lparr>blk_address = 1, blk_values = [IntV 0, IntV 0]\<rparr>"
  using updater_leaves_input_banks [of 2 E0 1 2 2 100 1 w_slave 1]
  by (simp add: w_slave_eq)

end
